theory Spec2Isabelle
  imports Complex_Main "HOL-Library.Char_ord" "HOL-Library.List_Lexorder" "HOL-Library.Multiset"
begin

section \<open>JavaScript values used by the API\<close>

text \<open>
  JavaScript numbers are modelled as exact rationals, extended by the three special
  values that a division can produce. Negative zero is identified with zero: the two
  compare equal and both serialise to \<open>0\<close> in a JSON body.
\<close>

datatype jsnum = Fin rat | PosInfinity | NegInfinity | NaN

text \<open>The quotient \<open>a / b\<close> of two finite numbers.\<close>

definition js_div :: "rat \<Rightarrow> rat \<Rightarrow> jsnum" where
  "js_div a b =
     (if b \<noteq> 0 then Fin (a / b)
      else if a = 0 then NaN
      else if 0 < a then PosInfinity
      else NegInfinity)"

fun Math_ceil :: "jsnum \<Rightarrow> jsnum" where
  "Math_ceil (Fin x) = Fin (of_int \<lceil>x\<rceil>)"
| "Math_ceil v = v"

text \<open>\<open>a < b\<close> for a finite left operand: every comparison with \<open>NaN\<close> is false.\<close>

fun js_less :: "rat \<Rightarrow> jsnum \<Rightarrow> bool" where
  "js_less a (Fin b) = (a < b)"
| "js_less a PosInfinity = True"
| "js_less a NegInfinity = False"
| "js_less a NaN = False"

text \<open>\<open>Math.round\<close> rounds to the nearest integer, a tie going up.\<close>

definition Math_round :: "rat \<Rightarrow> int" where
  "Math_round x = \<lfloor>x + 1 / 2\<rfloor>"


subsection \<open>Strings\<close>

definition isWhiteSpace :: "char \<Rightarrow> bool" where
  "isWhiteSpace c = (c \<in> set [CHR '' '', CHR 0x09, CHR 0x0A, CHR 0x0B, CHR 0x0C, CHR 0x0D])"

definition trim :: "string \<Rightarrow> string" where
  "trim s = rev (dropWhile isWhiteSpace (rev (dropWhile isWhiteSpace s)))"

definition toLowerChar :: "char \<Rightarrow> char" where
  "toLowerChar c =
     (if CHR ''A'' \<le> c \<and> c \<le> CHR ''Z'' then char_of (of_char c + (32::nat)) else c)"

definition toLowerCase :: "string \<Rightarrow> string" where
  "toLowerCase s = map toLowerChar s"

text \<open>
  \<open>parseInt\<close> without a radix: leading white space is skipped, a sign is read, a
  \<open>0x\<close> prefix selects base 16, and the longest run of digits is converted. No digit
  at all gives \<open>NaN\<close>, here \<open>None\<close>. Whatever follows the digits is ignored.
  The digits are converted exactly, and white space and letter case are those of ASCII.
\<close>

definition digitValue :: "char \<Rightarrow> nat" where
  "digitValue c =
     (if CHR ''0'' \<le> c \<and> c \<le> CHR ''9'' then of_char c - 48
      else if CHR ''a'' \<le> c \<and> c \<le> CHR ''z'' then of_char c - 87
      else if CHR ''A'' \<le> c \<and> c \<le> CHR ''Z'' then of_char c - 55
      else 36)"

definition parseDigits :: "nat \<Rightarrow> string \<Rightarrow> int option" where
  "parseDigits radix s =
     (let ds = takeWhile (\<lambda>c. digitValue c < radix) s
      in if ds = [] then None
         else Some (foldl (\<lambda>acc c. acc * int radix + int (digitValue c)) 0 ds))"

definition parseIntString :: "string \<Rightarrow> int option" where
  "parseIntString s =
     (let s1 = dropWhile isWhiteSpace s;
          neg = (s1 \<noteq> [] \<and> hd s1 = CHR ''-'');
          s2 = (if s1 \<noteq> [] \<and> (hd s1 = CHR ''-'' \<or> hd s1 = CHR ''+'') then tl s1 else s1);
          hex = (take 2 s2 = ''0x'' \<or> take 2 s2 = ''0X'');
          r = (if hex then parseDigits 16 (drop 2 s2) else parseDigits 10 s2)
      in map_option (\<lambda>n. if neg then - n else n) r)"

text \<open>
  A value of the query object: the strings of the URL, or the number that
  \<open>validateQueryParams\<close> writes back.
\<close>

datatype qval = QStr string | QNum int

fun parseInt :: "qval option \<Rightarrow> int option" where
  "parseInt None = None"
| "parseInt (Some (QStr s)) = parseIntString s"
| "parseInt (Some (QNum n)) = Some n"

text \<open>\<open>parseInt(v) || d\<close>: \<open>NaN\<close> and \<open>0\<close> are falsy.\<close>

definition orDefault :: "int option \<Rightarrow> int \<Rightarrow> int" where
  "orDefault v d = (case v of None \<Rightarrow> d | Some n \<Rightarrow> if n = 0 then d else n)"

section \<open>Response helpers (apiResponse)\<close>

record pagination =
  currentPage :: int
  itemsPerPage :: int
  totalItems :: int
  totalPages :: jsnum
  hasNextPage :: bool
  hasPrevPage :: bool
  nextPage :: "int option"
  prevPage :: "int option"

record 'a paginated =
  status :: nat
  message :: string
  data :: "'a list"
  meta :: pagination

definition sendPaginated :: "'a list \<Rightarrow> int \<Rightarrow> int \<Rightarrow> int \<Rightarrow> string \<Rightarrow> 'a paginated" where
  "sendPaginated dat page limit totalCount msg =
     (let totalPages = Math_ceil (js_div (of_int totalCount) (of_int limit));
          hasNextPage = js_less (of_int page) totalPages;
          hasPrevPage = (page > 1)
      in \<lparr> status = 200, message = msg, data = dat,
           meta = \<lparr> currentPage = page, itemsPerPage = limit, totalItems = totalCount,
                    totalPages = totalPages,
                    hasNextPage = hasNextPage, hasPrevPage = hasPrevPage,
                    nextPage = (if hasNextPage then Some (page + 1) else None),
                    prevPage = (if hasPrevPage then Some (page - 1) else None) \<rparr> \<rparr>)"

section \<open>Data model\<close>

text \<open>
  An ObjectId is kept in its canonical form, 24 lower-case hexadecimal digits. A date is
  a number of milliseconds since the epoch. A field of a JSON request body is absent
  (\<open>Undefined\<close>), \<open>null\<close> or a value.
\<close>

type_synonym objectId = string
type_synonym date = int

datatype 'a jsfield = Undefined | Null | Val 'a

fun toOption :: "'a jsfield \<Rightarrow> 'a option" where
  "toOption (Val v) = Some v"
| "toOption _ = None"

definition isHexDigit :: "char \<Rightarrow> bool" where
  "isHexDigit c = (c \<in> set ''0123456789abcdefABCDEF'')"

definition hexByte :: "char \<Rightarrow> string" where
  "hexByte c = [''0123456789abcdef'' ! (of_char c div 16), ''0123456789abcdef'' ! (of_char c mod 16)]"

text \<open>
  Mongoose casts a string to an ObjectId when it has 24 hexadecimal digits or is 12
  bytes long; any other string raises a \<open>CastError\<close>, here \<open>None\<close>.
\<close>

definition castObjectId :: "string \<Rightarrow> objectId option" where
  "castObjectId s =
     (if length s = 24 \<and> list_all isHexDigit s then Some (toLowerCase s)
      else if length s = 12 then Some (concat (map hexByte s))
      else None)"

text \<open>
  The User schema. The OAuth fields \<open>githubId\<close>, \<open>username\<close> and \<open>avatarUrl\<close>,
  which no operation below reads, are left out.
\<close>

record user =
  uid :: objectId
  name :: string
  email :: string
  age :: "rat option"
  weight :: "rat option"
  height :: "rat option"
  fitnessGoal :: "string option"
  activityLevel :: "string option"
  isActive :: bool
  profileCompletion :: rat
  createdAt :: date
  updatedAt :: date

record exercise =
  exName :: string
  exSets :: "rat option"
  exReps :: "rat option"
  exWeight :: "rat option"

record workout =
  wid :: objectId
  userId :: objectId
  title :: string
  exerciseType :: string
  duration :: rat
  caloriesBurned :: rat
  intensity :: string
  workoutNotes :: "string option"
  workoutDate :: date
  completed :: bool
  exercises :: "exercise list"
  workoutCreatedAt :: date

text \<open>The two collections, each in insertion order.\<close>

record store =
  users :: "user list"
  workouts :: "workout list"

text \<open>
  What an operation can fail with: a response written by the handler itself, or an
  exception that reaches the global error handler.
\<close>

datatype detail =
    FieldError string string "qval option"
  | ConflictData string string
  | DeleteBlocked nat string

datatype failure =
    HttpError nat string "detail list"
  | AppError string nat
  | ValidationError
  | DuplicateKeyError
  | CastError
  | TypeError
  | SyntaxError
  | MongoServerError

text \<open>The status code that \<open>errorHandler\<close> answers with.\<close>

fun statusCode :: "failure \<Rightarrow> nat" where
  "statusCode (HttpError c m ds) = c"
| "statusCode (AppError m c) = (if c = 0 then 500 else c)"
| "statusCode ValidationError = 400"
| "statusCode DuplicateKeyError = 409"
| "statusCode CastError = 400"
| "statusCode TypeError = 500"
| "statusCode SyntaxError = 500"
| "statusCode MongoServerError = 500"

section \<open>User model\<close>

subsection \<open>Virtual properties\<close>

text \<open>A number is truthy unless it is zero; an absent one is falsy.\<close>

fun truthyNum :: "rat option \<Rightarrow> bool" where
  "truthyNum None = False"
| "truthyNum (Some x) = (x \<noteq> 0)"

fun truthyStr :: "string option \<Rightarrow> bool" where
  "truthyStr None = False"
| "truthyStr (Some s) = (s \<noteq> [])"





subsection \<open>The pre-save hook\<close>

definition completedFields :: "user \<Rightarrow> nat" where
  "completedFields u =
     (if name u \<noteq> [] then 1 else 0) +
     (if email u \<noteq> [] then 1 else 0) +
     (if truthyNum (age u) then 1 else 0) +
     (if truthyNum (weight u) then 1 else 0) +
     (if truthyNum (height u) then 1 else 0) +
     (if truthyStr (fitnessGoal u) then 1 else 0) +
     (if truthyStr (activityLevel u) then 1 else 0)"

definition pre_save :: "user \<Rightarrow> user" where
  "pre_save u =
     (let totalFields = 7
      in u\<lparr> profileCompletion := of_int (Math_round ((of_nat (completedFields u) / totalFields) * 100)) \<rparr>)"

subsection \<open>Schema validation\<close>

definition isAlpha :: "char \<Rightarrow> bool" where
  "isAlpha c = ((CHR ''a'' \<le> c \<and> c \<le> CHR ''z'') \<or> (CHR ''A'' \<le> c \<and> c \<le> CHR ''Z''))"

definition isAlnum :: "char \<Rightarrow> bool" where
  "isAlnum c = (isAlpha c \<or> (CHR ''0'' \<le> c \<and> c \<le> CHR ''9''))"

text \<open>
  The e-mail pattern \<^verbatim>\<open>^[a-zA-Z0-9._%+-]+@[a-zA-Z0-9.-]+\.[a-zA-Z]{2,}$\<close>. Neither
  character class holds \<open>@\<close>, so the local part ends at the first \<open>@\<close>; the last
  group holds no dot, so it starts after the last dot.
\<close>

definition emailRegex_test :: "string \<Rightarrow> bool" where
  "emailRegex_test s =
     (let loc = takeWhile (\<lambda>c. c \<noteq> CHR ''@'') s;
          rest = dropWhile (\<lambda>c. c \<noteq> CHR ''@'') s;
          dom = tl rest;
          tld = rev (takeWhile (\<lambda>c. c \<noteq> CHR ''.'') (rev dom));
          pre = rev (dropWhile (\<lambda>c. c \<noteq> CHR ''.'') (rev dom))
      in loc \<noteq> [] \<and> list_all (\<lambda>c. isAlnum c \<or> c \<in> set ''._%+-'') loc
         \<and> rest \<noteq> []
         \<and> 2 \<le> length pre \<and> list_all (\<lambda>c. isAlnum c \<or> c \<in> set ''.-'') (butlast pre)
         \<and> 2 \<le> length tld \<and> list_all isAlpha tld)"

definition fitnessGoals :: "string list" where
  "fitnessGoals = [''weight_loss'', ''muscle_gain'', ''endurance'', ''flexibility'', ''general_fitness'']"

definition activityLevels :: "string list" where
  "activityLevels =
     [''sedentary'', ''lightly_active'', ''moderately_active'', ''very_active'', ''extra_active'']"

definition inRange :: "rat \<Rightarrow> rat \<Rightarrow> rat option \<Rightarrow> bool" where
  "inRange lo hi v = (case v of None \<Rightarrow> True | Some x \<Rightarrow> lo \<le> x \<and> x \<le> hi)"

definition inEnum :: "string list \<Rightarrow> string option \<Rightarrow> bool" where
  "inEnum vs v = (case v of None \<Rightarrow> True | Some x \<Rightarrow> x \<in> set vs)"

definition valid_name :: "string \<Rightarrow> bool" where
  "valid_name n = (n \<noteq> [] \<and> 2 \<le> length n \<and> length n \<le> 50)"

definition valid_email :: "string \<Rightarrow> bool" where
  "valid_email e = (e \<noteq> [] \<and> emailRegex_test e)"

definition userSchema_validate :: "user \<Rightarrow> bool" where
  "userSchema_validate u =
     (valid_name (name u) \<and> valid_email (email u)
      \<and> inRange 13 120 (age u) \<and> inRange 20 500 (weight u) \<and> inRange 50 300 (height u)
      \<and> inEnum fitnessGoals (fitnessGoal u) \<and> inEnum activityLevels (activityLevel u)
      \<and> 0 \<le> profileCompletion u \<and> profileCompletion u \<le> 100)"

subsection \<open>Queries and writes on the Users collection\<close>

fun findFirst :: "('a \<Rightarrow> bool) \<Rightarrow> 'a list \<Rightarrow> 'a option" where
  "findFirst P [] = None"
| "findFirst P (x # xs) = (if P x then Some x else findFirst P xs)"

fun removeFirst :: "('a \<Rightarrow> bool) \<Rightarrow> 'a list \<Rightarrow> 'a list" where
  "removeFirst P [] = []"
| "removeFirst P (x # xs) = (if P x then xs else x # removeFirst P xs)"

fun replaceFirst :: "('a \<Rightarrow> bool) \<Rightarrow> 'a \<Rightarrow> 'a list \<Rightarrow> 'a list" where
  "replaceFirst P y [] = []"
| "replaceFirst P y (x # xs) = (if P x then y # xs else x # replaceFirst P y xs)"

definition User_findById :: "store \<Rightarrow> string \<Rightarrow> failure + user option" where
  "User_findById s i =
     (case castObjectId i of
        None \<Rightarrow> Inl CastError
      | Some oid \<Rightarrow> Inr (findFirst (\<lambda>u. uid u = oid) (users s)))"

definition User_findOne_email :: "store \<Rightarrow> string \<Rightarrow> user option" where
  "User_findOne_email s e = findFirst (\<lambda>u. email u = e) (users s)"

text \<open>
  \<open>User.create\<close>: the schema setters and defaults are applied, the document is
  validated, the pre-save hook runs, and the insertion respects the unique index on
  \<open>email\<close>. The new identifier and the clock are given by the caller.
\<close>

record user_body =
  b_name :: "string jsfield"
  b_email :: "string jsfield"
  b_age :: "rat jsfield"
  b_weight :: "rat jsfield"
  b_height :: "rat jsfield"
  b_fitnessGoal :: "string jsfield"
  b_activityLevel :: "string jsfield"
  b_isActive :: "bool option"
  b_profileCompletion :: "rat option"

definition User_create :: "store \<Rightarrow> objectId \<Rightarrow> date \<Rightarrow> user_body \<Rightarrow> (failure + user) \<times> store" where
  "User_create s newId now b =
     (case (b_name b, b_email b) of
        (Val n, Val e) \<Rightarrow>
          (let doc = \<lparr> uid = newId, name = trim n, email = trim (toLowerCase e),
                       age = toOption (b_age b), weight = toOption (b_weight b),
                       height = toOption (b_height b),
                       fitnessGoal = toOption (b_fitnessGoal b),
                       activityLevel =
                         (case b_activityLevel b of
                            Undefined \<Rightarrow> Some ''moderately_active''
                          | Null \<Rightarrow> None
                          | Val l \<Rightarrow> Some l),
                       isActive = (case b_isActive b of None \<Rightarrow> True | Some a \<Rightarrow> a),
                       profileCompletion =
                         (case b_profileCompletion b of None \<Rightarrow> 0 | Some p \<Rightarrow> p),
                       createdAt = now, updatedAt = now \<rparr>
           in if \<not> userSchema_validate doc then (Inl ValidationError, s)
              else
                (let saved = pre_save doc
                 in if list_ex (\<lambda>u. email u = email saved) (users s)
                    then (Inl DuplicateKeyError, s)
                    else (Inr saved, s\<lparr> users := users s @ [saved] \<rparr>)))
      | _ \<Rightarrow> (Inl ValidationError, s))"

text \<open>
  \<open>User.findByIdAndUpdate\<close> with \<open>new: true\<close> and \<open>runValidators: true\<close>: the
  fields present in the update are set, each of them is validated, and the document is
  written. It is a query operation: no save hook runs.
\<close>

definition applyField :: "'a jsfield \<Rightarrow> 'a option \<Rightarrow> 'a option" where
  "applyField f old = (case f of Undefined \<Rightarrow> old | Null \<Rightarrow> None | Val v \<Rightarrow> Some v)"

definition applyUpdate :: "user_body \<Rightarrow> date \<Rightarrow> user \<Rightarrow> user" where
  "applyUpdate b now u =
     u\<lparr> name := (case b_name b of Val n \<Rightarrow> trim n | _ \<Rightarrow> name u),
        email := (case b_email b of Val e \<Rightarrow> trim (toLowerCase e) | _ \<Rightarrow> email u),
        age := applyField (b_age b) (age u),
        weight := applyField (b_weight b) (weight u),
        height := applyField (b_height b) (height u),
        fitnessGoal := applyField (b_fitnessGoal b) (fitnessGoal u),
        activityLevel := applyField (b_activityLevel b) (activityLevel u),
        isActive := (case b_isActive b of None \<Rightarrow> isActive u | Some a \<Rightarrow> a),
        profileCompletion :=
          (case b_profileCompletion b of None \<Rightarrow> profileCompletion u | Some p \<Rightarrow> p),
        updatedAt := now \<rparr>"

definition updateValidators :: "user_body \<Rightarrow> bool" where
  "updateValidators b =
     ((case b_name b of Undefined \<Rightarrow> True | Null \<Rightarrow> False | Val n \<Rightarrow> valid_name (trim n))
      \<and> (case b_email b of Undefined \<Rightarrow> True | Null \<Rightarrow> False
          | Val e \<Rightarrow> valid_email (trim (toLowerCase e)))
      \<and> inRange 13 120 (toOption (b_age b)) \<and> inRange 20 500 (toOption (b_weight b))
      \<and> inRange 50 300 (toOption (b_height b))
      \<and> inEnum fitnessGoals (toOption (b_fitnessGoal b))
      \<and> inEnum activityLevels (toOption (b_activityLevel b))
      \<and> inRange 0 100 (b_profileCompletion b))"

definition User_findByIdAndUpdate ::
  "store \<Rightarrow> string \<Rightarrow> date \<Rightarrow> user_body \<Rightarrow> (failure + user option) \<times> store" where
  "User_findByIdAndUpdate s i now b =
     (case castObjectId i of
        None \<Rightarrow> (Inl CastError, s)
      | Some oid \<Rightarrow>
          if \<not> updateValidators b then (Inl ValidationError, s)
          else
            (case findFirst (\<lambda>u. uid u = oid) (users s) of
               None \<Rightarrow> (Inr None, s)
             | Some u \<Rightarrow>
                 (let u' = applyUpdate b now u
                  in if list_ex (\<lambda>v. uid v \<noteq> oid \<and> email v = email u') (users s)
                     then (Inl DuplicateKeyError, s)
                     else (Inr (Some u'),
                           s\<lparr> users := replaceFirst (\<lambda>v. uid v = oid) u' (users s) \<rparr>))))"

definition User_findByIdAndDelete :: "store \<Rightarrow> objectId \<Rightarrow> store" where
  "User_findByIdAndDelete s oid = s\<lparr> users := removeFirst (\<lambda>u. uid u = oid) (users s) \<rparr>"

subsection \<open>Filtered, sorted and paginated reads\<close>

text \<open>A stable insertion sort under a comparison given by the caller.\<close>

fun insort_by :: "('a \<Rightarrow> 'a \<Rightarrow> bool) \<Rightarrow> 'a \<Rightarrow> 'a list \<Rightarrow> 'a list" where
  "insort_by le x [] = [x]"
| "insort_by le x (y # ys) = (if le x y then x # y # ys else y # insort_by le x ys)"

definition sort_by :: "('a \<Rightarrow> 'a \<Rightarrow> bool) \<Rightarrow> 'a list \<Rightarrow> 'a list" where
  "sort_by le xs = foldr (insort_by le) xs []"

text \<open>
  The values a sort key can take, compared as the database compares them: first by
  kind (null, number, string, identifier, boolean, date), then within the kind.
\<close>

datatype bson = BNull | BNum rat | BStr string | BId string | BBool bool | BDate int

fun bsonRank :: "bson \<Rightarrow> nat" where
  "bsonRank BNull = 1"
| "bsonRank (BNum x) = 2"
| "bsonRank (BStr x) = 3"
| "bsonRank (BId x) = 7"
| "bsonRank (BBool x) = 8"
| "bsonRank (BDate x) = 9"

fun bson_le :: "bson \<Rightarrow> bson \<Rightarrow> bool" where
  "bson_le (BNum x) (BNum y) = (x \<le> y)"
| "bson_le (BStr x) (BStr y) = (x \<le> y)"
| "bson_le (BId x) (BId y) = (x \<le> y)"
| "bson_le (BBool x) (BBool y) = (x \<le> y)"
| "bson_le (BDate x) (BDate y) = (x \<le> y)"
| "bson_le a b = (bsonRank a \<le> bsonRank b)"

definition optNum :: "rat option \<Rightarrow> bson" where
  "optNum v = (case v of None \<Rightarrow> BNull | Some x \<Rightarrow> BNum x)"

definition optStr :: "string option \<Rightarrow> bson" where
  "optStr v = (case v of None \<Rightarrow> BNull | Some x \<Rightarrow> BStr x)"

definition userField :: "string \<Rightarrow> user \<Rightarrow> bson" where
  "userField f u =
     (if f = ''_id'' then BId (uid u)
      else if f = ''name'' then BStr (name u)
      else if f = ''email'' then BStr (email u)
      else if f = ''age'' then optNum (age u)
      else if f = ''weight'' then optNum (weight u)
      else if f = ''height'' then optNum (height u)
      else if f = ''fitnessGoal'' then optStr (fitnessGoal u)
      else if f = ''activityLevel'' then optStr (activityLevel u)
      else if f = ''isActive'' then BBool (isActive u)
      else if f = ''profileCompletion'' then BNum (profileCompletion u)
      else if f = ''createdAt'' then BDate (createdAt u)
      else if f = ''updatedAt'' then BDate (updatedAt u)
      else BNull)"

definition sortUsers :: "string \<times> int \<Rightarrow> user list \<Rightarrow> user list" where
  "sortUsers so us =
     (case so of (f, ord) \<Rightarrow>
        if ord = 1 then sort_by (\<lambda>a b. bson_le (userField f a) (userField f b)) us
        else sort_by (\<lambda>a b. bson_le (userField f b) (userField f a)) us)"

text \<open>
  The filter object of \<open>getAllUsers\<close>. The search expression is the compiled regular
  expression, a predicate on strings.
\<close>

record user_filter =
  f_fitnessGoal :: "string option"
  f_activityLevel :: "string option"
  f_isActive :: "bool option"
  f_or :: "(string \<Rightarrow> bool) option"

definition matchesUser :: "user_filter \<Rightarrow> user \<Rightarrow> bool" where
  "matchesUser f u =
     ((case f_fitnessGoal f of None \<Rightarrow> True | Some g \<Rightarrow> fitnessGoal u = Some g)
      \<and> (case f_activityLevel f of None \<Rightarrow> True | Some l \<Rightarrow> activityLevel u = Some l)
      \<and> (case f_isActive f of None \<Rightarrow> True | Some a \<Rightarrow> isActive u = a)
      \<and> (case f_or f of None \<Rightarrow> True | Some re \<Rightarrow> re (name u) \<or> re (email u)))"

text \<open>
  \<open>skip\<close> and \<open>limit\<close> as the database applies them: a negative \<open>skip\<close> is
  rejected by the server, a negative \<open>limit\<close> is sent as its absolute value, and
  \<open>limit 0\<close> means no limit.
\<close>

definition skipLimit :: "int \<Rightarrow> int \<Rightarrow> 'a list \<Rightarrow> failure + 'a list" where
  "skipLimit skip limit xs =
     (if skip < 0 then Inl MongoServerError
      else if limit = 0 then Inr (drop (nat skip) xs)
      else Inr (take (nat \<bar>limit\<bar>) (drop (nat skip) xs)))"

definition User_find ::
  "store \<Rightarrow> user_filter \<Rightarrow> string \<times> int \<Rightarrow> int \<Rightarrow> int \<Rightarrow> failure + user list" where
  "User_find s f so skip limit =
     skipLimit skip limit (sortUsers so (filter (matchesUser f) (users s)))"

definition User_countDocuments :: "store \<Rightarrow> user_filter \<Rightarrow> nat" where
  "User_countDocuments s f = length (filter (matchesUser f) (users s))"

section \<open>Requests\<close>

text \<open>
  The query object of a request, one field for each key that a handler reads. Every
  value is a string; \<open>page\<close> and \<open>limit\<close> are replaced by numbers when
  \<open>validateQueryParams\<close> accepts them.
\<close>

record query =
  q_page :: "qval option"
  q_limit :: "qval option"
  q_sort :: "string option"
  q_order :: "string option"
  q_fitnessGoal :: "string option"
  q_activityLevel :: "string option"
  q_isActive :: "string option"
  q_search :: "string option"
  q_userId :: "string option"
  q_exerciseType :: "string option"
  q_intensity :: "string option"
  q_completed :: "string option"
  q_startDate :: "string option"
  q_endDate :: "string option"

definition digitChar :: "nat \<Rightarrow> char" where
  "digitChar n = ''0123456789'' ! n"

fun showNat :: "nat \<Rightarrow> string" where
  "showNat n = (if n < 10 then [digitChar n] else showNat (n div 10) @ [digitChar (n mod 10)])"

declare showNat.simps [simp del]

section \<open>Validation middleware\<close>


section \<open>Workout model\<close>

definition exerciseTypes :: "string list" where
  "exerciseTypes =
     [''cardio'', ''strength'', ''flexibility'', ''sports'', ''yoga'', ''pilates'', ''hiit'',
      ''crossfit'', ''swimming'', ''cycling'', ''running'', ''walking'', ''other'']"

definition intensities :: "string list" where
  "intensities = [''low'', ''moderate'', ''high'', ''extreme'']"

definition exercise_validate :: "exercise \<Rightarrow> bool" where
  "exercise_validate e =
     (trim (exName e) \<noteq> []
      \<and> (case exSets e of None \<Rightarrow> True | Some x \<Rightarrow> 1 \<le> x)
      \<and> (case exReps e of None \<Rightarrow> True | Some x \<Rightarrow> 1 \<le> x)
      \<and> (case exWeight e of None \<Rightarrow> True | Some x \<Rightarrow> 0 \<le> x))"

definition workoutSchema_validate :: "date \<Rightarrow> workout \<Rightarrow> bool" where
  "workoutSchema_validate now w =
     (3 \<le> length (title w) \<and> length (title w) \<le> 100
      \<and> exerciseType w \<in> set exerciseTypes
      \<and> 1 \<le> duration w \<and> duration w \<le> 600
      \<and> 1 \<le> caloriesBurned w \<and> caloriesBurned w \<le> 5000
      \<and> intensity w \<in> set intensities
      \<and> (case workoutNotes w of None \<Rightarrow> True | Some n \<Rightarrow> length n \<le> 500)
      \<and> workoutDate w \<le> now
      \<and> list_all exercise_validate (exercises w))"

record workout_body =
  wb_userId :: "string jsfield"
  wb_title :: "string jsfield"
  wb_exerciseType :: "string jsfield"
  wb_duration :: "rat jsfield"
  wb_caloriesBurned :: "rat jsfield"
  wb_intensity :: "string jsfield"
  wb_notes :: "string jsfield"
  wb_workoutDate :: "date jsfield"
  wb_completed :: "bool option"
  wb_exercises :: "exercise list jsfield"

definition castUserId :: "string jsfield \<Rightarrow> objectId option" where
  "castUserId f = (case f of Val v \<Rightarrow> castObjectId v | _ \<Rightarrow> None)"

text \<open>
  \<open>Workout.create\<close>: every required path must hold a value, the reference is cast to
  an ObjectId, the strings are trimmed and the intensity defaults to \<open>moderate\<close>.
  The date is required, so the pre-save hook, which runs after validation and fills in a
  missing date, finds nothing to do.
\<close>

definition Workout_create ::
  "store \<Rightarrow> objectId \<Rightarrow> date \<Rightarrow> workout_body \<Rightarrow> (failure + workout) \<times> store" where
  "Workout_create s newId now b =
     (case (castUserId (wb_userId b), wb_title b, wb_exerciseType b, wb_duration b,
            wb_caloriesBurned b, wb_workoutDate b) of
        (Some oid, Val t, Val ty, Val d, Val c, Val wd) \<Rightarrow>
          (case wb_intensity b of
             Null \<Rightarrow> (Inl ValidationError, s)
           | i \<Rightarrow>
               (let doc = \<lparr> wid = newId, userId = oid, title = trim t, exerciseType = ty,
                            duration = d, caloriesBurned = c,
                            intensity = (case i of Val v \<Rightarrow> v | _ \<Rightarrow> ''moderate''),
                            workoutNotes = map_option trim (toOption (wb_notes b)),
                            workoutDate = wd,
                            completed = (case wb_completed b of None \<Rightarrow> True | Some x \<Rightarrow> x),
                            exercises = (case wb_exercises b of Val es \<Rightarrow> es | _ \<Rightarrow> []),
                            workoutCreatedAt = now \<rparr>
                in if \<not> workoutSchema_validate now doc then (Inl ValidationError, s)
                   else (Inr doc, s\<lparr> workouts := workouts s @ [doc] \<rparr>)))
      | _ \<Rightarrow> (Inl ValidationError, s))"

subsection \<open>Queries on the Workouts collection\<close>

record workout_filter =
  wf_userId :: "objectId option"
  wf_exerciseType :: "string option"
  wf_intensity :: "string option"
  wf_completed :: "bool option"
  wf_gte :: "date option"
  wf_lte :: "date option"

definition matchesWorkout :: "workout_filter \<Rightarrow> workout \<Rightarrow> bool" where
  "matchesWorkout f w =
     ((case wf_userId f of None \<Rightarrow> True | Some u \<Rightarrow> userId w = u)
      \<and> (case wf_exerciseType f of None \<Rightarrow> True | Some t \<Rightarrow> exerciseType w = t)
      \<and> (case wf_intensity f of None \<Rightarrow> True | Some i \<Rightarrow> intensity w = i)
      \<and> (case wf_completed f of None \<Rightarrow> True | Some c \<Rightarrow> completed w = c)
      \<and> (case wf_gte f of None \<Rightarrow> True | Some d \<Rightarrow> d \<le> workoutDate w)
      \<and> (case wf_lte f of None \<Rightarrow> True | Some d \<Rightarrow> workoutDate w \<le> d))"

definition anyWorkout :: workout_filter where
  "anyWorkout = \<lparr> wf_userId = None, wf_exerciseType = None, wf_intensity = None,
                  wf_completed = None, wf_gte = None, wf_lte = None \<rparr>"

definition byWorkoutDateDesc :: "workout list \<Rightarrow> workout list" where
  "byWorkoutDateDesc ws = sort_by (\<lambda>a b. workoutDate b \<le> workoutDate a) ws"

definition Workout_find :: "store \<Rightarrow> workout_filter \<Rightarrow> workout list" where
  "Workout_find s f = filter (matchesWorkout f) (workouts s)"

definition Workout_countDocuments :: "store \<Rightarrow> workout_filter \<Rightarrow> nat" where
  "Workout_countDocuments s f = length (filter (matchesWorkout f) (workouts s))"

text \<open>
  \<open>populate('userId', 'name email')\<close> replaces the reference by the name and e-mail
  of the user it points to, or by \<open>null\<close> when there is none.
\<close>

definition populate :: "store \<Rightarrow> workout \<Rightarrow> workout \<times> (string \<times> string) option" where
  "populate s w =
     (w, map_option (\<lambda>u. (name u, email u)) (findFirst (\<lambda>u. uid u = userId w) (users s)))"

subsection \<open>Totals of a user\<close>






section \<open>User controller\<close>

definition sendNotFound :: "string \<Rightarrow> string \<Rightarrow> failure" where
  "sendNotFound resource identifier =
     HttpError 404
       (if identifier \<noteq> [] then resource @ '' with ID '' @ [CHR 0x27] @ identifier @ [CHR 0x27]
          @ '' not found''
        else resource @ '' not found'')
       []"

definition createUser :: "store \<Rightarrow> objectId \<Rightarrow> date \<Rightarrow> user_body \<Rightarrow> (failure + user) \<times> store" where
  "createUser s newId now body =
     (case b_email body of
        Val e \<Rightarrow>
          (case User_findOne_email s (toLowerCase e) of
             Some existingUser \<Rightarrow>
               (Inl (HttpError 409 ''User with this email already exists''
                       [ConflictData ''email'' e]), s)
           | None \<Rightarrow>
               (case b_name body of
                  Val n \<Rightarrow>
                    User_create s newId now
                      \<lparr> b_name = Val (trim n), b_email = Val (trim (toLowerCase e)),
                        b_age = b_age body, b_weight = b_weight body,
                        b_height = b_height body, b_fitnessGoal = b_fitnessGoal body,
                        b_activityLevel = b_activityLevel body,
                        b_isActive = None, b_profileCompletion = None \<rparr>
                | _ \<Rightarrow> (Inl TypeError, s)))
      | _ \<Rightarrow> (Inl TypeError, s))"

text \<open>
  \<open>getAllUsers\<close>, written as its steps: the filter, the pagination parameters, the
  sort options, and the query. The constructor of regular expressions is a parameter:
  \<open>rx p\<close> is the case-insensitive matcher of the pattern \<open>p\<close>, or \<open>None\<close> when
  the pattern is malformed and the constructor throws.
\<close>

definition nonEmpty :: "string option \<Rightarrow> string option" where
  "nonEmpty v = (case v of None \<Rightarrow> None | Some x \<Rightarrow> if x = [] then None else Some x)"

definition userFilter ::
  "(string \<Rightarrow> (string \<Rightarrow> bool) option) \<Rightarrow> query \<Rightarrow> failure + user_filter" where
  "userFilter rx q =
     (let searchRegex = (case nonEmpty (q_search q) of None \<Rightarrow> Some None
                         | Some p \<Rightarrow> map_option Some (rx p))
      in case searchRegex of
           None \<Rightarrow> Inl SyntaxError
         | Some re \<Rightarrow>
             Inr \<lparr> f_fitnessGoal = nonEmpty (q_fitnessGoal q),
                   f_activityLevel = nonEmpty (q_activityLevel q),
                   f_isActive = map_option (\<lambda>v. v = ''true'') (q_isActive q),
                   f_or = re \<rparr>)"

definition pageParam :: "query \<Rightarrow> int" where
  "pageParam q = orDefault (parseInt (q_page q)) 1"

definition limitParam :: "query \<Rightarrow> int" where
  "limitParam q = orDefault (parseInt (q_limit q)) 10"

definition userSortOptions :: "query \<Rightarrow> string \<times> int" where
  "userSortOptions q =
     (case nonEmpty (q_sort q) of
        Some sortField \<Rightarrow>
          (sortField, if q_order q = Some ''desc'' \<or> q_order q = Some ''-1'' then - 1 else 1)
      | None \<Rightarrow> (''createdAt'', - 1))"

definition getAllUsers ::
  "(string \<Rightarrow> (string \<Rightarrow> bool) option) \<Rightarrow> store \<Rightarrow> query \<Rightarrow> failure + user paginated" where
  "getAllUsers rx s q =
     (case userFilter rx q of
        Inl err \<Rightarrow> Inl err
      | Inr flt \<Rightarrow>
          (let page = pageParam q;
               limit = limitParam q;
               skip = (page - 1) * limit
           in case User_find s flt (userSortOptions q) skip limit of
                Inl err \<Rightarrow> Inl err
              | Inr us \<Rightarrow>
                  Inr (sendPaginated us page limit (int (User_countDocuments s flt))
                         (''Retrieved '' @ showNat (length us) @ '' users successfully''))))"

definition updateUser :: "store \<Rightarrow> string \<Rightarrow> date \<Rightarrow> user_body \<Rightarrow> (failure + user) \<times> store" where
  "updateUser s i now updateData =
     (case User_findById s i of
        Inl err \<Rightarrow> (Inl err, s)
      | Inr None \<Rightarrow> (Inl (sendNotFound ''User'' i), s)
      | Inr (Some existingUser) \<Rightarrow>
          (let newEmail = nonEmpty (toOption (b_email updateData));
               emailExists =
                 (case newEmail of
                    None \<Rightarrow> None
                  | Some e \<Rightarrow> if e \<noteq> email existingUser
                              then User_findOne_email s (toLowerCase e) else None)
           in if emailExists \<noteq> None
              then (Inl (HttpError 409 ''Email already exists''
                           [ConflictData ''email'' (the newEmail)]), s)
              else
                (let cleanUpdateData =
                       updateData
                         \<lparr> b_name := (case b_name updateData of
                                        Val n \<Rightarrow> if n \<noteq> [] then Val (trim n) else Val n
                                      | f \<Rightarrow> f),
                           b_email := (case b_email updateData of
                                         Val e \<Rightarrow> if e \<noteq> [] then Val (trim (toLowerCase e))
                                                  else Val e
                                       | f \<Rightarrow> f) \<rparr>
                 in case User_findByIdAndUpdate s i now cleanUpdateData of
                      (Inl err, s') \<Rightarrow> (Inl err, s')
                    | (Inr None, s') \<Rightarrow> (Inl TypeError, s')
                    | (Inr (Some updatedUser), s') \<Rightarrow> (Inr updatedUser, s'))))"

definition deleteUser :: "store \<Rightarrow> string \<Rightarrow> (failure + unit) \<times> store" where
  "deleteUser s i =
     (case User_findById s i of
        Inl err \<Rightarrow> (Inl err, s)
      | Inr None \<Rightarrow> (Inl (sendNotFound ''User'' i), s)
      | Inr (Some u) \<Rightarrow>
          (let workoutCount =
                 Workout_countDocuments s (anyWorkout\<lparr> wf_userId := castObjectId i \<rparr>)
           in if workoutCount > 0
              then (Inl (HttpError 409
                           (''Cannot delete user. User has '' @ showNat workoutCount
                              @ '' workout(s). Please delete all workouts first or set user as inactive.'')
                           [DeleteBlocked workoutCount
                              ''Consider setting isActive to false instead of deleting'']), s)
              else (Inr (), User_findByIdAndDelete s (uid u))))"

subsection \<open>Statistics of a user\<close>






section \<open>Workout controller\<close>

definition createWorkout ::
  "store \<Rightarrow> objectId \<Rightarrow> date \<Rightarrow> workout_body \<Rightarrow> (failure + workout) \<times> store" where
  "createWorkout s newId now body =
     (let userExists =
            (case wb_userId body of
               Val v \<Rightarrow> User_findById s v
             | _ \<Rightarrow> Inr None)
      in case userExists of
           Inl err \<Rightarrow> (Inl err, s)
         | Inr None \<Rightarrow>
             (Inl (AppError ''User not found. Cannot create workout for non-existent user.'' 404), s)
         | Inr (Some u) \<Rightarrow>
             Workout_create s newId now
               (body\<lparr> wb_workoutDate :=
                        (case wb_workoutDate body of
                           Val d \<Rightarrow> if d \<noteq> 0 then Val d else Val now
                         | _ \<Rightarrow> Val now),
                      wb_completed :=
                        (case wb_completed body of None \<Rightarrow> Some True | Some c \<Rightarrow> Some c),
                      wb_exercises :=
                        (case wb_exercises body of Val es \<Rightarrow> Val es | _ \<Rightarrow> Val []) \<rparr>))"

text \<open>
  \<open>getAllWorkouts\<close>, written as its steps: the filter, then the query with the
  pagination parameters. The parser of date strings is a parameter: \<open>parseDate d\<close>
  is the instant the string denotes, or \<open>None\<close> when it denotes none and the query
  cannot be cast.
\<close>

definition castDate :: "(string \<Rightarrow> date option) \<Rightarrow> string option \<Rightarrow> (date option) option" where
  "castDate parseDate v =
     (case nonEmpty v of None \<Rightarrow> Some None | Some d \<Rightarrow> map_option Some (parseDate d))"

definition workoutFilter :: "(string \<Rightarrow> date option) \<Rightarrow> query \<Rightarrow> failure + workout_filter" where
  "workoutFilter parseDate q =
     (let uidFilter = (case nonEmpty (q_userId q) of None \<Rightarrow> Some None
                       | Some v \<Rightarrow> map_option Some (castObjectId v))
      in case (uidFilter, castDate parseDate (q_startDate q), castDate parseDate (q_endDate q)) of
           (Some u, Some gte, Some lte) \<Rightarrow>
             Inr \<lparr> wf_userId = u,
                   wf_exerciseType = nonEmpty (q_exerciseType q),
                   wf_intensity = nonEmpty (q_intensity q),
                   wf_completed = map_option (\<lambda>v. v = ''true'') (q_completed q),
                   wf_gte = gte, wf_lte = lte \<rparr>
         | _ \<Rightarrow> Inl CastError)"

definition getAllWorkouts ::
  "(string \<Rightarrow> date option) \<Rightarrow> store \<Rightarrow> query
     \<Rightarrow> failure + (workout \<times> (string \<times> string) option) paginated" where
  "getAllWorkouts parseDate s q =
     (case workoutFilter parseDate q of
        Inl err \<Rightarrow> Inl err
      | Inr flt \<Rightarrow>
          (let page = pageParam q;
               limit = limitParam q;
               skip = (page - 1) * limit
           in case skipLimit skip limit (byWorkoutDateDesc (Workout_find s flt)) of
                Inl err \<Rightarrow> Inl err
              | Inr ws \<Rightarrow>
                  Inr (sendPaginated (map (populate s) ws) page limit
                         (int (Workout_countDocuments s flt))
                         ''Workouts retrieved successfully'')))"

section \<open>Routes\<close>




section \<open>Sample data\<close>


definition emptyStore :: store where
  "emptyStore = \<lparr> users = [], workouts = [] \<rparr>"



definition aliceId :: objectId where
  "aliceId = ''507f1f77bcf86cd799439011''"

definition bobId :: objectId where
  "bobId = ''507f1f77bcf86cd799439012''"

definition alice :: user where
  "alice =
     \<lparr> uid = aliceId, name = ''Alice Doe'', email = ''alice@example.com'', age = Some 28,
       weight = Some 70, height = Some 175, fitnessGoal = Some ''endurance'',
       activityLevel = Some ''moderately_active'', isActive = True, profileCompletion = 100,
       createdAt = 1000, updatedAt = 1000 \<rparr>"

definition morningRun :: workout where
  "morningRun =
     \<lparr> wid = ''64b64c7f9d3e2a0012345678'', userId = aliceId, title = ''Morning run'',
       exerciseType = ''running'', duration = 30, caloriesBurned = 300,
       intensity = ''moderate'', workoutNotes = None, workoutDate = 5000, completed = True,
       exercises = [], workoutCreatedAt = 5000 \<rparr>"

definition plannedSwim :: workout where
  "plannedSwim =
     \<lparr> wid = ''64b64c7f9d3e2a0012345679'', userId = aliceId, title = ''Planned swim'',
       exerciseType = ''swimming'', duration = 45, caloriesBurned = 250,
       intensity = ''low'', workoutNotes = None, workoutDate = 6000, completed = False,
       exercises = [], workoutCreatedAt = 6000 \<rparr>"

definition sampleStore :: store where
  "sampleStore = \<lparr> users = [alice], workouts = [morningRun, plannedSwim] \<rparr>"


definition emptyUserBody :: user_body where
  "emptyUserBody =
     \<lparr> b_name = Undefined, b_email = Undefined, b_age = Undefined, b_weight = Undefined,
       b_height = Undefined, b_fitnessGoal = Undefined, b_activityLevel = Undefined,
       b_isActive = None, b_profileCompletion = None \<rparr>"

definition emptyWorkoutBody :: workout_body where
  "emptyWorkoutBody =
     \<lparr> wb_userId = Undefined, wb_title = Undefined, wb_exerciseType = Undefined,
       wb_duration = Undefined, wb_caloriesBurned = Undefined, wb_intensity = Undefined,
       wb_notes = Undefined, wb_workoutDate = Undefined, wb_completed = None,
       wb_exercises = Undefined \<rparr>"

definition janeId :: objectId where
  "janeId = ''507f1f77bcf86cd799439013''"

definition janeBody :: user_body where
  "janeBody = emptyUserBody\<lparr> b_name := Val ''Jane Doe'', b_email := Val ''jane@example.com'' \<rparr>"

definition ageUpdate :: user_body where
  "ageUpdate = emptyUserBody\<lparr> b_age := Val 30 \<rparr>"

definition afterCreate :: store where
  "afterCreate = snd (createUser emptyStore janeId 1000 janeBody)"

definition afterUpdate :: store where
  "afterUpdate = snd (updateUser afterCreate janeId 2000 ageUpdate)"

section \<open>Pagination metadata\<close>


text \<open>Both list handlers answer through \<open>sendPaginated\<close>.\<close>

lemma getAllUsers_sendPaginated:
  assumes "getAllUsers rx s q = Inr r"
  shows "\<exists>us flt msg. userFilter rx q = Inr flt
           \<and> r = sendPaginated us (pageParam q) (limitParam q)
                   (int (User_countDocuments s flt)) msg"
proof (cases "userFilter rx q")
  case (Inl e)
  with assms show ?thesis by (simp add: getAllUsers_def)
next
  case (Inr flt)
  show ?thesis
  proof (cases "User_find s flt (userSortOptions q) ((pageParam q - 1) * limitParam q) (limitParam q)")
    case (Inl e)
    with assms Inr show ?thesis by (simp add: getAllUsers_def Let_def)
  next
    case us: (Inr us)
    with assms Inr have "r = sendPaginated us (pageParam q) (limitParam q)
                   (int (User_countDocuments s flt))
                   (''Retrieved '' @ showNat (length us) @ '' users successfully'')"
      by (simp add: getAllUsers_def Let_def)
    with Inr show ?thesis by blast
  qed
qed

lemma getAllWorkouts_sendPaginated:
  assumes "getAllWorkouts pd s q = Inr r"
  shows "\<exists>ws flt msg. workoutFilter pd q = Inr flt
           \<and> r = sendPaginated ws (pageParam q) (limitParam q)
                   (int (Workout_countDocuments s flt)) msg"
proof (cases "workoutFilter pd q")
  case (Inl e)
  with assms show ?thesis by (simp add: getAllWorkouts_def)
next
  case (Inr flt)
  show ?thesis
  proof (cases "skipLimit ((pageParam q - 1) * limitParam q) (limitParam q)
                  (byWorkoutDateDesc (Workout_find s flt))")
    case (Inl e)
    with assms Inr show ?thesis by (simp add: getAllWorkouts_def Let_def)
  next
    case ws: (Inr ws)
    with assms Inr have "r = sendPaginated (map (populate s) ws) (pageParam q) (limitParam q)
                   (int (Workout_countDocuments s flt)) ''Workouts retrieved successfully''"
      by (simp add: getAllWorkouts_def Let_def)
    with Inr show ?thesis by blast
  qed
qed



text \<open>
  Claim C2 as stated fails: on page 2 of an empty result, \<open>hasPrevPage\<close> is true.
\<close>

theorem empty_total_counterexample:
  "\<not> (totalPages (meta (sendPaginated ([] :: nat list) 2 10 0 ''ok'')) = Fin 0
      \<and> hasNextPage (meta (sendPaginated ([] :: nat list) 2 10 0 ''ok'')) = False
      \<and> hasPrevPage (meta (sendPaginated ([] :: nat list) 2 10 0 ''ok'')) = False)"
  by (simp add: sendPaginated_def Let_def)

text \<open>
  Claim C2, amended. With a total of 0 the response is always built: \<open>totalPages\<close> is 0
  for every limit other than 0 (and \<open>NaN\<close> for the limit 0), \<open>hasNextPage\<close> is false
  for every page from 0 upwards, and \<open>hasPrevPage\<close> is \<open>page > 1\<close>, so it is false
  on pages up to 1 only.
\<close>

theorem sendPaginated_empty_total:
  "let m = meta (sendPaginated dat page limit 0 msg)
   in totalPages m = (if limit = 0 then NaN else Fin 0)
      \<and> hasNextPage m = (limit \<noteq> 0 \<and> page < 0)
      \<and> hasPrevPage m = (page > 1)
      \<and> nextPage m = (if limit \<noteq> 0 \<and> page < 0 then Some (page + 1) else None)
      \<and> prevPage m = (if page > 1 then Some (page - 1) else None)"
  by (simp add: sendPaginated_def js_div_def Let_def)

theorem sendPaginated_empty_total_witness:
  "let m = meta (sendPaginated ([] :: nat list) 1 10 0 ''ok'')
   in totalPages m = Fin 0 \<and> \<not> hasNextPage m \<and> \<not> hasPrevPage m
      \<and> nextPage m = None \<and> prevPage m = None"
  using sendPaginated_empty_total [of "[] :: nat list" 1 10 "''ok''"]
  by (simp add: Let_def)

section \<open>Validation of list queries\<close>









lemma parseIntString_0: "parseIntString ''0'' = Some 0"
  by code_simp

lemma parseInt_0: "parseInt (Some (QStr ''0'')) = Some 0"
  by (simp add: parseIntString_0)

lemma parseIntString_101: "parseIntString ''101'' = Some 101"
  by code_simp

lemma parseInt_101: "parseInt (Some (QStr ''101'')) = Some 101"
  by (simp add: parseIntString_101)





section \<open>Referential integrity\<close>

lemma findFirst_None_iff: "findFirst P xs = None \<longleftrightarrow> (\<forall>x\<in>set xs. \<not> P x)"
  by (induction xs) auto

lemma findFirst_SomeD: "findFirst P xs = Some x \<Longrightarrow> x \<in> set xs \<and> P x"
  by (induction xs) (auto split: if_splits)

lemma findFirst_exists: "x \<in> set xs \<Longrightarrow> P x \<Longrightarrow> \<exists>y. findFirst P xs = Some y \<and> y \<in> set xs \<and> P y"
  by (induction xs) auto

lemma matches_byUser:
  "matchesWorkout (anyWorkout\<lparr> wf_userId := Some oid \<rparr>) = (\<lambda>w. userId w = oid)"
  by (rule ext) (simp add: matchesWorkout_def anyWorkout_def)

lemma User_findById_missing:
  assumes "castObjectId v = Some oid" and "\<forall>u\<in>set (users s). uid u \<noteq> oid"
  shows "User_findById s v = Inr None"
  using assms by (simp add: User_findById_def findFirst_None_iff)

lemma User_findById_present:
  assumes "castObjectId v = Some oid" and "u \<in> set (users s)" and "uid u = oid"
  shows "\<exists>u'. User_findById s v = Inr (Some u') \<and> u' \<in> set (users s) \<and> uid u' = oid"
  using assms findFirst_exists [of u "users s" "\<lambda>u. uid u = oid"]
  by (auto simp add: User_findById_def)

lemma Workout_create_failure:
  "Workout_create s newId now b = (Inl e, s') \<Longrightarrow> s' = s"
  by (auto simp add: Workout_create_def Let_def
        split: option.splits jsfield.splits if_splits)

lemma createWorkout_failure:
  assumes "createWorkout s newId now body = (Inl e, s')"
  shows "s' = s"
proof (cases "case wb_userId body of Val v \<Rightarrow> User_findById s v | _ \<Rightarrow> Inr None")
  case (Inl err)
  with assms show ?thesis by (simp add: createWorkout_def)
next
  case (Inr found)
  with assms show ?thesis
    by (cases found) (auto simp add: createWorkout_def dest: Workout_create_failure)
qed

text \<open>
  Claim C5. When the \<open>userId\<close> of the body is a well-formed identifier that no stored
  user carries, \<open>createWorkout\<close> fails with the 404 error
  \<open>User not found. Cannot create workout for non-existent user.\<close> and returns the
  store it was given: no workout is created. More generally, whenever \<open>createWorkout\<close>
  fails, the store is the one it was given.
\<close>

theorem createWorkout_unknown_user:
  "(wb_userId body = Val v \<and> castObjectId v = Some oid \<and> (\<forall>u\<in>set (users s). uid u \<noteq> oid)
      \<longrightarrow> createWorkout s newId now body
            = (Inl (AppError ''User not found. Cannot create workout for non-existent user.'' 404),
               s)
          \<and> statusCode
               (AppError ''User not found. Cannot create workout for non-existent user.'' 404)
              = 404)
   \<and> (\<forall>e s'. createWorkout s newId now body = (Inl e, s') \<longrightarrow> s' = s)"
proof (intro conjI impI allI)
  assume a: "wb_userId body = Val v \<and> castObjectId v = Some oid
             \<and> (\<forall>u\<in>set (users s). uid u \<noteq> oid)"
  then have "User_findById s v = Inr None"
    using User_findById_missing [of v oid s] by blast
  with a show "createWorkout s newId now body
            = (Inl (AppError ''User not found. Cannot create workout for non-existent user.'' 404),
               s)"
    by (simp add: createWorkout_def)
  show "statusCode (AppError ''User not found. Cannot create workout for non-existent user.'' 404)
          = 404"
    by simp
next
  fix e s'
  assume "createWorkout s newId now body = (Inl e, s')"
  then show "s' = s" by (rule createWorkout_failure)
qed

text \<open>
  Claim C6. Deleting an existing user who owns at least one workout is answered with
  status 409, the number of workouts in the message, and the store is returned as it
  was: the user and all workouts are unchanged.
\<close>

theorem deleteUser_with_workouts:
  assumes "castObjectId i = Some oid" and "u \<in> set (users s)" and "uid u = oid"
    and "w \<in> set (workouts s)" and "userId w = oid"
  shows "let n = length (filter (\<lambda>w. userId w = oid) (workouts s))
         in 0 < n
            \<and> deleteUser s i
                = (Inl (HttpError 409
                          (''Cannot delete user. User has '' @ showNat n
                             @ '' workout(s). Please delete all workouts first or set user as inactive.'')
                          [DeleteBlocked n ''Consider setting isActive to false instead of deleting'']),
                   s)"
proof -
  obtain u' where f: "User_findById s i = Inr (Some u')"
    using User_findById_present [OF assms(1,2,3)] by blast
  have c: "Workout_countDocuments s (anyWorkout\<lparr> wf_userId := castObjectId i \<rparr>)
             = length (filter (\<lambda>w. userId w = oid) (workouts s))"
    by (simp add: Workout_countDocuments_def assms(1) matches_byUser)
  have "w \<in> set (filter (\<lambda>w. userId w = oid) (workouts s))"
    using assms(4,5) by simp
  then have pos: "0 < length (filter (\<lambda>w. userId w = oid) (workouts s))"
    by (metis length_pos_if_in_set)
  show ?thesis
    using f c pos by (simp add: deleteUser_def Let_def)
qed

lemma cast_aliceId: "castObjectId aliceId = Some aliceId"
  by code_simp

lemma cast_bobId: "castObjectId bobId = Some bobId"
  by code_simp

lemma alice_not_bob: "aliceId \<noteq> bobId"
  by (simp add: aliceId_def bobId_def)

theorem createWorkout_unknown_user_witness:
  "createWorkout sampleStore ''64b64c7f9d3e2a001234567a'' 9000
       (emptyWorkoutBody\<lparr> wb_userId := Val bobId, wb_title := Val ''Evening walk'' \<rparr>)
     = (Inl (AppError ''User not found. Cannot create workout for non-existent user.'' 404),
        sampleStore)"
proof -
  have a: "wb_userId (emptyWorkoutBody\<lparr> wb_userId := Val bobId, wb_title := Val ''Evening walk'' \<rparr>)
             = Val bobId"
    by simp
  have b: "\<forall>u\<in>set (users sampleStore). uid u \<noteq> bobId"
    using alice_not_bob by (simp add: sampleStore_def alice_def)
  show ?thesis
    using createWorkout_unknown_user
            [of "emptyWorkoutBody\<lparr> wb_userId := Val bobId, wb_title := Val ''Evening walk'' \<rparr>"
                bobId bobId sampleStore "''64b64c7f9d3e2a001234567a''" 9000]
          a cast_bobId b
    by blast
qed

theorem deleteUser_with_workouts_witness:
  "deleteUser sampleStore aliceId
     = (Inl (HttpError 409
               ''Cannot delete user. User has 2 workout(s). Please delete all workouts first or set user as inactive.''
               [DeleteBlocked 2 ''Consider setting isActive to false instead of deleting'']),
        sampleStore)"
proof -
  have u: "alice \<in> set (users sampleStore)" "uid alice = aliceId"
    by (simp_all add: sampleStore_def alice_def)
  have w: "morningRun \<in> set (workouts sampleStore)" "userId morningRun = aliceId"
    by (simp_all add: sampleStore_def morningRun_def)
  have n: "length (filter (\<lambda>w. userId w = aliceId) (workouts sampleStore)) = 2"
    by (simp add: sampleStore_def morningRun_def plannedSwim_def)
  have sh: "showNat 2 = ''2''"
    by code_simp
  show ?thesis
    using deleteUser_with_workouts [OF cast_aliceId u w] n sh
    by (simp add: Let_def)
qed

section \<open>Statistics of a user\<close>



















section \<open>Boolean filters of the list operations\<close>













lemma matchesWorkout_completed:
  "matchesWorkout (f\<lparr> wf_completed := Some c \<rparr>) w
     = (completed w = c \<and> matchesWorkout (f\<lparr> wf_completed := None \<rparr>) w)"
  by (auto simp add: matchesWorkout_def)









section \<open>Body mass index\<close>













section \<open>Profile completion\<close>

lemma completedFields_pre_save: "completedFields (pre_save u) = completedFields u"
  by (simp add: completedFields_def pre_save_def)

lemma pre_save_profileCompletion:
  "profileCompletion (pre_save u)
     = of_int (Math_round ((of_nat (completedFields u) / 7) * 100))"
  by (simp add: pre_save_def)

lemma User_create_profileCompletion:
  assumes "User_create s newId now b = (Inr u, s')"
  shows "profileCompletion u = of_int (Math_round ((of_nat (completedFields u) / 7) * 100))
         \<and> users s' = users s @ [u]"
  using assms
  by (auto simp add: User_create_def Let_def completedFields_pre_save pre_save_profileCompletion
        split: jsfield.splits if_splits)

lemma createUser_profileCompletion:
  assumes "createUser s newId now body = (Inr u, s')"
  shows "profileCompletion u = of_int (Math_round ((of_nat (completedFields u) / 7) * 100))
         \<and> users s' = users s @ [u]"
  using assms User_create_profileCompletion
  by (auto simp add: createUser_def split: jsfield.splits option.splits)

lemma five_of_seven: "Math_round (((5::rat) / 7) * 100) = 71"
  by code_simp

lemma applyUpdate_profileCompletion:
  "b_profileCompletion b = None \<Longrightarrow> profileCompletion (applyUpdate b now u) = profileCompletion u"
  by (simp add: applyUpdate_def)

lemma User_findByIdAndUpdate_profileCompletion:
  assumes "User_findByIdAndUpdate s i now b = (Inr (Some u'), s')"
    and "b_profileCompletion b = None"
  shows "\<exists>u. User_findById s i = Inr (Some u) \<and> profileCompletion u' = profileCompletion u"
  using assms
  by (auto simp add: User_findByIdAndUpdate_def User_findById_def Let_def
        applyUpdate_profileCompletion split: option.splits if_splits)

lemma updateUser_profileCompletion:
  assumes "updateUser s i now b = (Inr u', s')" and "b_profileCompletion b = None"
  shows "\<exists>u. User_findById s i = Inr (Some u) \<and> profileCompletion u' = profileCompletion u"
proof -
  obtain c where c: "User_findByIdAndUpdate s i now c = (Inr (Some u'), s')"
      "b_profileCompletion c = None"
    using assms
    by (auto simp add: updateUser_def Let_def split: sum.splits option.splits if_splits prod.splits)
  then show ?thesis
    by (rule User_findByIdAndUpdate_profileCompletion)
qed

text \<open>
  Claim C4 at a concrete input. A user is created with a name and an e-mail address:
  three of the seven fields are present (the activity level has a default) and the
  stored \<open>profileCompletion\<close> is 43. The user is then updated with an age: four
  fields are present, for which the formula gives 57, and the stored value is still 43.
\<close>

theorem updateUser_stale_profileCompletion:
  "map profileCompletion (users afterCreate) = [43]
   \<and> map completedFields (users afterCreate) = [3]
   \<and> map age (users afterUpdate) = [Some 30]
   \<and> map completedFields (users afterUpdate) = [4]
   \<and> map profileCompletion (users afterUpdate) = [43]
   \<and> Math_round ((4 / 7) * 100) = 57"
  by code_simp

end
